theory Spec2Isabelle
  imports Main "HOL-Library.Word"
begin

section \<open>Identifiers of the document store\<close>

text \<open>
  The handlers of \<^verbatim>\<open>src/dev.js\<close> receive identifiers as path strings and hand them to
  the object mapper, which casts them to the store's native 12-byte identifier. The
  identifier is a 96-bit word; the accepted text format is the canonical one, 24
  hexadecimal digits (either case). \<open>ObjectId.isValid\<close> and the cast are library code; they
  are written out here because the handlers branch on them. Some versions of the driver
  also take any string of 12 characters as the 12 bytes; the malformed identifiers used
  below (\<open>abc\<close>, \<open>not-an-id\<close>) are refused by every version.
\<close>

type_synonym objectId = "96 word"

definition hexval :: "char \<Rightarrow> nat option" where
  "hexval c =
     (let n = (of_char c :: nat) in
      if 48 \<le> n \<and> n \<le> 57 then Some (n - 48)
      else if 97 \<le> n \<and> n \<le> 102 then Some (n - 87)
      else if 65 \<le> n \<and> n \<le> 70 then Some (n - 55)
      else None)"

definition hexchar :: "nat \<Rightarrow> char" where
  "hexchar d = (if d < 10 then char_of (48 + d) else char_of (87 + d))"

fun parseHex :: "nat \<Rightarrow> string \<Rightarrow> nat option" where
  "parseHex acc [] = Some acc"
| "parseHex acc (c # cs) =
     (case hexval c of None \<Rightarrow> None | Some d \<Rightarrow> parseHex (16 * acc + d) cs)"

fun hexDigits :: "nat \<Rightarrow> nat \<Rightarrow> string" where
  "hexDigits 0 n = []"
| "hexDigits (Suc k) n = hexDigits k (n div 16) @ [hexchar (n mod 16)]"

text \<open>\<open>mongoose.Types.ObjectId.isValid\<close> on a path string.\<close>

definition isValid :: "string \<Rightarrow> bool" where
  "isValid s = (length s = 24 \<and> list_all (\<lambda>c. hexval c \<noteq> None) s)"

text \<open>The cast the object mapper applies to an identifier in a query; \<open>None\<close> is a
  \<open>CastError\<close>.\<close>

definition castObjectId :: "string \<Rightarrow> objectId option" where
  "castObjectId s =
     (if length s = 24 then map_option word_of_nat (parseHex 0 s) else None)"

text \<open>\<open>ObjectId.toHexString\<close>: how an identifier appears in a JSON response.\<close>

definition toHexString :: "objectId \<Rightarrow> string" where
  "toHexString i = hexDigits 24 (unat i)"

section \<open>Data model\<close>

text \<open>The two schemas, both with \<open>timestamps: true\<close>.\<close>

record category =
  cat_id :: objectId
  cat_name :: string
  cat_createdAt :: nat
  cat_updatedAt :: nat

record animal =
  ani_id :: objectId
  ani_name :: string
  ani_image :: "string option"
  ani_category :: "objectId option"
  ani_createdAt :: nat
  ani_updatedAt :: nat

text \<open>An animal after \<open>populate('category')\<close>: the reference is replaced by the
  referenced document, or by nothing when no category has that identifier.\<close>

record populated =
  pop_id :: objectId
  pop_name :: string
  pop_image :: "string option"
  pop_category :: "category option"
  pop_createdAt :: nat
  pop_updatedAt :: nat

type_synonym bytes = "8 word list"

text \<open>A file part of a multipart request, and the file object the upload middleware puts
  in \<open>req.file\<close>.\<close>

record file_part =
  fp_fieldname :: string
  fp_originalname :: string
  fp_data :: bytes

record multer_file =
  mf_fieldname :: string
  mf_originalname :: string
  mf_filename :: string
  mf_size :: nat

datatype error =
    CastError string
  | ValidationError
  | DuplicateKey objectId
  | StoreUnavailable
  | LIMIT_FILE_SIZE string
  | LIMIT_UNEXPECTED_FILE string

text \<open>An argument of a query that is compared with an identifier: a path string, or the
  \<open>_id\<close> of a document read before.\<close>

datatype idarg = Str string | Oid objectId

fun castArg :: "idarg \<Rightarrow> objectId option" where
  "castArg (Str s) = castObjectId s"
| "castArg (Oid i) = Some i"

fun argText :: "idarg \<Rightarrow> string" where
  "argText (Str s) = s"
| "argText (Oid i) = toHexString i"

text \<open>Every call a handler makes on a model is recorded, with its arguments.\<close>

datatype store_call =
    CategoryFind
  | CategoryFindById string
  | CategoryFindOne string
  | CategorySave category
  | CategoryFindByIdAndUpdate string string
  | CategoryFindByIdAndDelete string
  | AnimalFindPopulate "idarg option"
  | AnimalSave animal
  | AnimalFindByIdAndDelete string

text \<open>
  The state the handlers act on: the two collections in insertion order, the files of
  the directory \<open>uploads/animals\<close> (the newest entry of a name is the file's content),
  whether the store can be reached, and the calls issued so far. A call on an
  unreachable store throws, as does a call whose identifier cannot be cast and a
  \<open>save\<close> the schema or the collection refuses; no other failure of the store is
  modelled.
\<close>

record world =
  connected :: bool
  categories :: "category list"
  animals :: "animal list"
  uploads :: "(string \<times> bytes) list"
  queries :: "store_call list"

text \<open>What a request takes from its environment: \<open>Date.now()\<close> and the identifier the
  driver generates for a new document.\<close>

record env =
  now :: nat
  newId :: objectId

datatype payload =
    Message string
  | MessageError string error
  | Categories "category list"
  | CategoryDoc category
  | CategoryAndAnimals category "populated list"
  | Animals "populated list"
  | AnimalAdded string animal
  | ErrorPage error
  | NotFoundPage
  | FileContent bytes

type_synonym response = "nat \<times> payload"

section \<open>The store\<close>

definition issue :: "store_call \<Rightarrow> world \<Rightarrow> world" where
  "issue q w = w\<lparr>queries := queries w @ [q]\<rparr>"

fun updateFirst :: "('a \<Rightarrow> bool) \<Rightarrow> ('a \<Rightarrow> 'a) \<Rightarrow> 'a list \<Rightarrow> 'a list" where
  "updateFirst P f [] = []"
| "updateFirst P f (x # xs) = (if P x then f x # xs else x # updateFirst P f xs)"

fun deleteFirst :: "('a \<Rightarrow> bool) \<Rightarrow> 'a list \<Rightarrow> 'a list" where
  "deleteFirst P [] = []"
| "deleteFirst P (x # xs) = (if P x then xs else x # deleteFirst P xs)"

definition populate :: "category list \<Rightarrow> animal \<Rightarrow> populated" where
  "populate cs a =
     \<lparr>pop_id = ani_id a, pop_name = ani_name a, pop_image = ani_image a,
      pop_category =
        (case ani_category a of
           None \<Rightarrow> None
         | Some i \<Rightarrow> List.find (\<lambda>c. cat_id c = i) cs),
      pop_createdAt = ani_createdAt a, pop_updatedAt = ani_updatedAt a\<rparr>"

text \<open>\<open>Category.find()\<close>\<close>

definition Category_find :: "world \<Rightarrow> (error + category list) \<times> world" where
  "Category_find w =
     (if connected w then Inr (categories w) else Inl StoreUnavailable,
      issue CategoryFind w)"

text \<open>\<open>Category.findById(id)\<close>\<close>

definition Category_findById :: "string \<Rightarrow> world \<Rightarrow> (error + category option) \<times> world" where
  "Category_findById s w =
     (case castObjectId s of
        None \<Rightarrow> Inl (CastError s)
      | Some i \<Rightarrow>
          if connected w then Inr (List.find (\<lambda>c. cat_id c = i) (categories w))
          else Inl StoreUnavailable,
      issue (CategoryFindById s) w)"

text \<open>\<open>Category.findOne({ name })\<close>\<close>

definition Category_findOne :: "string \<Rightarrow> world \<Rightarrow> (error + category option) \<times> world" where
  "Category_findOne n w =
     (if connected w then Inr (List.find (\<lambda>c. cat_name c = n) (categories w))
      else Inl StoreUnavailable,
      issue (CategoryFindOne n) w)"

text \<open>\<open>doc.save()\<close> of a new category: the schema requires a name, the collection
  refuses a second document with the same \<open>_id\<close>.\<close>

definition Category_save :: "category \<Rightarrow> world \<Rightarrow> (error + category) \<times> world" where
  "Category_save c w =
     (let w' = issue (CategorySave c) w in
      if cat_name c = [] then (Inl ValidationError, w')
      else if \<not> connected w then (Inl StoreUnavailable, w')
      else if List.find (\<lambda>d. cat_id d = cat_id c) (categories w) \<noteq> None
        then (Inl (DuplicateKey (cat_id c)), w')
      else (Inr c, w'\<lparr>categories := categories w @ [c]\<rparr>))"

text \<open>\<open>Category.findByIdAndUpdate(id, { name }, { new: true })\<close>\<close>

definition Category_findByIdAndUpdate ::
  "string \<Rightarrow> string \<Rightarrow> nat \<Rightarrow> world \<Rightarrow> (error + category option) \<times> world" where
  "Category_findByIdAndUpdate s n t w =
     (let w' = issue (CategoryFindByIdAndUpdate s n) w in
      case castObjectId s of
        None \<Rightarrow> (Inl (CastError s), w')
      | Some i \<Rightarrow>
          if \<not> connected w then (Inl StoreUnavailable, w')
          else
            (case List.find (\<lambda>c. cat_id c = i) (categories w) of
               None \<Rightarrow> (Inr None, w')
             | Some c \<Rightarrow>
                 (Inr (Some (c\<lparr>cat_name := n, cat_updatedAt := t\<rparr>)),
                  w'\<lparr>categories :=
                       updateFirst (\<lambda>c. cat_id c = i)
                         (\<lambda>c. c\<lparr>cat_name := n, cat_updatedAt := t\<rparr>) (categories w)\<rparr>)))"

text \<open>\<open>Category.findByIdAndDelete(id)\<close>\<close>

definition Category_findByIdAndDelete ::
  "string \<Rightarrow> world \<Rightarrow> (error + category option) \<times> world" where
  "Category_findByIdAndDelete s w =
     (let w' = issue (CategoryFindByIdAndDelete s) w in
      case castObjectId s of
        None \<Rightarrow> (Inl (CastError s), w')
      | Some i \<Rightarrow>
          if \<not> connected w then (Inl StoreUnavailable, w')
          else
            (case List.find (\<lambda>c. cat_id c = i) (categories w) of
               None \<Rightarrow> (Inr None, w')
             | Some c \<Rightarrow>
                 (Inr (Some c),
                  w'\<lparr>categories := deleteFirst (\<lambda>c. cat_id c = i) (categories w)\<rparr>)))"

text \<open>\<open>Animal.find(filter).populate('category')\<close>, the filter being absent or
  \<open>{ category: arg }\<close>.\<close>

definition Animal_find_populate ::
  "idarg option \<Rightarrow> world \<Rightarrow> (error + populated list) \<times> world" where
  "Animal_find_populate flt w =
     (case flt of
        None \<Rightarrow>
          if connected w then Inr (map (populate (categories w)) (animals w))
          else Inl StoreUnavailable
      | Some arg \<Rightarrow>
          (case castArg arg of
             None \<Rightarrow> Inl (CastError (argText arg))
           | Some i \<Rightarrow>
               if connected w
               then Inr (map (populate (categories w))
                          (filter (\<lambda>a. ani_category a = Some i) (animals w)))
               else Inl StoreUnavailable),
      issue (AnimalFindPopulate flt) w)"

text \<open>\<open>doc.save()\<close> of a new animal.\<close>

definition Animal_save :: "animal \<Rightarrow> world \<Rightarrow> (error + animal) \<times> world" where
  "Animal_save a w =
     (let w' = issue (AnimalSave a) w in
      if ani_name a = [] then (Inl ValidationError, w')
      else if \<not> connected w then (Inl StoreUnavailable, w')
      else if List.find (\<lambda>b. ani_id b = ani_id a) (animals w) \<noteq> None
        then (Inl (DuplicateKey (ani_id a)), w')
      else (Inr a, w'\<lparr>animals := animals w @ [a]\<rparr>))"

text \<open>\<open>Animal.findByIdAndDelete(id)\<close>\<close>

definition Animal_findByIdAndDelete ::
  "string \<Rightarrow> world \<Rightarrow> (error + animal option) \<times> world" where
  "Animal_findByIdAndDelete s w =
     (let w' = issue (AnimalFindByIdAndDelete s) w in
      case castObjectId s of
        None \<Rightarrow> (Inl (CastError s), w')
      | Some i \<Rightarrow>
          if \<not> connected w then (Inl StoreUnavailable, w')
          else
            (case List.find (\<lambda>a. ani_id a = i) (animals w) of
               None \<Rightarrow> (Inr None, w')
             | Some a \<Rightarrow>
                 (Inr (Some a),
                  w'\<lparr>animals := deleteFirst (\<lambda>a. ani_id a = i) (animals w)\<rparr>)))"

section \<open>Controllers\<close>

text \<open>
  A controller is a function of the parts of the request it reads and of the state; it
  returns the response (status and JSON payload) and the new state. Path parameters are
  strings, as the router delivers them; only \<open>addAnimal\<close> tests its parameter for
  absence, so only there it may be absent. A body field is a string or absent. Each
  \<open>try\<close>/\<open>catch\<close> is the case on the result of the store call: \<open>Inl\<close> is the exception.
  Console output is left out.
\<close>

text \<open>JavaScript's \<open>!v\<close> for a value that is a string or absent: the controllers
  below write the test out as a case on the value.\<close>

definition falsy :: "string option \<Rightarrow> bool" where
  "falsy v = (case v of None \<Rightarrow> True | Some s \<Rightarrow> s = [])"

text \<open>\<open>getCategories\<close>\<close>

definition getCategories :: "world \<Rightarrow> response \<times> world" where
  "getCategories w =
     (case Category_find w of
        (Inl err, w') \<Rightarrow> ((500, MessageError ''Error fetching categories'' err), w')
      | (Inr cs, w') \<Rightarrow>
          if cs = [] then ((404, Message ''No categories found''), w')
          else ((200, Categories cs), w'))"

text \<open>\<open>getCategoryById\<close>\<close>

definition getCategoryById :: "string \<Rightarrow> world \<Rightarrow> response \<times> world" where
  "getCategoryById categoryId w =
     (if \<not> isValid categoryId then ((400, Message ''Invalid category ID format''), w)
      else
        (case Category_findById categoryId w of
           (Inl err, w1) \<Rightarrow>
             ((500, MessageError ''Error fetching category and animals'' err), w1)
         | (Inr None, w1) \<Rightarrow> ((404, Message ''Category not found''), w1)
         | (Inr (Some c), w1) \<Rightarrow>
             (case Animal_find_populate (Some (Str categoryId)) w1 of
                (Inl err, w2) \<Rightarrow>
                  ((500, MessageError ''Error fetching category and animals'' err), w2)
              | (Inr as, w2) \<Rightarrow> ((200, CategoryAndAnimals c as), w2))))"

text \<open>\<open>addCategory\<close>\<close>

definition addCategory :: "env \<Rightarrow> string option \<Rightarrow> world \<Rightarrow> response \<times> world" where
  "addCategory e name w =
     (case name of
        None \<Rightarrow> ((400, Message ''Category name is required''), w)
      | Some n \<Rightarrow>
          if n = [] then ((400, Message ''Category name is required''), w)
          else
            (case Category_save
                    \<lparr>cat_id = newId e, cat_name = n,
                     cat_createdAt = now e, cat_updatedAt = now e\<rparr> w of
               (Inl err, w') \<Rightarrow> ((500, MessageError ''Error adding category'' err), w')
             | (Inr c, w') \<Rightarrow> ((201, CategoryDoc c), w')))"

text \<open>\<open>updateCategory\<close>\<close>

definition updateCategory ::
  "env \<Rightarrow> string \<Rightarrow> string option \<Rightarrow> world \<Rightarrow> response \<times> world" where
  "updateCategory e categoryId name w =
     (if \<not> isValid categoryId then ((400, Message ''Invalid category ID format''), w)
      else
        (case name of
           None \<Rightarrow> ((400, Message ''Category name is required to update''), w)
         | Some n \<Rightarrow>
             if n = [] then ((400, Message ''Category name is required to update''), w)
             else
               (case Category_findByIdAndUpdate categoryId n (now e) w of
                  (Inl err, w') \<Rightarrow> ((500, MessageError ''Error updating category'' err), w')
                | (Inr None, w') \<Rightarrow> ((404, Message ''Category not found''), w')
                | (Inr (Some c), w') \<Rightarrow> ((200, CategoryDoc c), w'))))"

text \<open>\<open>deleteCategory\<close>\<close>

definition deleteCategory :: "string \<Rightarrow> world \<Rightarrow> response \<times> world" where
  "deleteCategory ident w =
     (if \<not> isValid ident then ((400, Message ''Invalid category ID format''), w)
      else
        (case Category_findByIdAndDelete ident w of
           (Inl err, w') \<Rightarrow> ((500, MessageError ''Error deleting category'' err), w')
         | (Inr None, w') \<Rightarrow> ((404, Message ''Category not found''), w')
         | (Inr (Some c), w') \<Rightarrow> ((200, Message ''Category deleted successfully''), w')))"

text \<open>\<open>getAnimals\<close>\<close>

definition getAnimals :: "world \<Rightarrow> response \<times> world" where
  "getAnimals w =
     (case Animal_find_populate None w of
        (Inl err, w') \<Rightarrow> ((500, MessageError ''Error fetching animals'' err), w')
      | (Inr as, w') \<Rightarrow> ((200, Animals as), w'))"

text \<open>\<open>addAnimal\<close>: \<open>categoryId\<close> is the path parameter, \<open>name\<close> the body field and
  \<open>file\<close> is \<open>req.file\<close>.\<close>

definition imagePath :: "multer_file option \<Rightarrow> string option" where
  "imagePath file =
     (case file of None \<Rightarrow> None | Some f \<Rightarrow> Some (''/uploads/animals/'' @ mf_filename f))"

definition addAnimal ::
  "env \<Rightarrow> string option \<Rightarrow> string option \<Rightarrow> multer_file option \<Rightarrow> world
     \<Rightarrow> response \<times> world" where
  "addAnimal e categoryId name file w =
     (case categoryId of
        None \<Rightarrow> ((400, Message ''Missing Category Id''), w)
      | Some cid \<Rightarrow>
          if cid = [] then ((400, Message ''Missing Category Id''), w)
          else
            (case name of
               None \<Rightarrow> ((400, Message ''Missing Image required fields.''), w)
             | Some n \<Rightarrow>
                 if n = [] then ((400, Message ''Missing Image required fields.''), w)
                 else
                   (case imagePath file of
                      None \<Rightarrow> ((400, Message ''Missing required fields.''), w)
                    | Some img \<Rightarrow>
                        if img = [] then ((400, Message ''Missing required fields.''), w)
                        else
                          (case Category_findById cid w of
                             (Inl err, w1) \<Rightarrow>
                               ((500, MessageError
                                        ''Internal server error while adding animal.'' err), w1)
                           | (Inr None, w1) \<Rightarrow> ((404, Message ''Category not found''), w1)
                           | (Inr (Some c), w1) \<Rightarrow>
                               (case Animal_save
                                       \<lparr>ani_id = newId e, ani_name = n,
                                        ani_image = Some img,
                                        ani_category = Some (cat_id c),
                                        ani_createdAt = now e, ani_updatedAt = now e\<rparr> w1 of
                                  (Inl err, w2) \<Rightarrow>
                                    ((500, MessageError
                                             ''Internal server error while adding animal.'' err),
                                     w2)
                                | (Inr a, w2) \<Rightarrow>
                                    ((201, AnimalAdded ''Animal added successfully.'' a),
                                     w2))))))"

text \<open>\<open>deleteAnimal\<close>\<close>

definition deleteAnimal :: "string \<Rightarrow> world \<Rightarrow> response \<times> world" where
  "deleteAnimal ident w =
     (case Animal_findByIdAndDelete ident w of
        (Inl err, w') \<Rightarrow> ((500, MessageError ''Error deleting animal'' err), w')
      | (Inr _, w') \<Rightarrow> ((200, Message ''Animal deleted successfully''), w'))"

text \<open>\<open>getAnimalsByCategoryId\<close>\<close>

definition getAnimalsByCategoryId :: "string \<Rightarrow> world \<Rightarrow> response \<times> world" where
  "getAnimalsByCategoryId categoryId w =
     (case Animal_find_populate (Some (Str categoryId)) w of
        (Inl err, w') \<Rightarrow>
          ((500, MessageError ''Error fetching animals by category ID'' err), w')
      | (Inr as, w') \<Rightarrow>
          if as = [] then ((404, Message ''No animals found in this category''), w')
          else ((200, Animals as), w'))"

text \<open>\<open>getAnimalsByCategoryName\<close>\<close>

definition getAnimalsByCategoryName :: "string \<Rightarrow> world \<Rightarrow> response \<times> world" where
  "getAnimalsByCategoryName categoryName w =
     (case Category_findOne categoryName w of
        (Inl err, w1) \<Rightarrow>
          ((500, MessageError ''Error fetching animals by category name'' err), w1)
      | (Inr None, w1) \<Rightarrow> ((404, Message ''Category not found''), w1)
      | (Inr (Some c), w1) \<Rightarrow>
          (case Animal_find_populate (Some (Oid (cat_id c))) w1 of
             (Inl err, w2) \<Rightarrow>
               ((500, MessageError ''Error fetching animals by category name'' err), w2)
           | (Inr as, w2) \<Rightarrow>
               if as = [] then ((404, Message ''No animals found in this category''), w2)
               else ((200, Animals as), w2)))"

section \<open>Upload middleware, the create-animal route and static files\<close>

text \<open>\<open>Date.now() + '-' + file.originalname\<close> needs the decimal numeral of the time.\<close>

fun showNat :: "nat \<Rightarrow> string" where
  "showNat n =
     (if n < 10 then [char_of (48 + n)]
      else showNat (n div 10) @ [char_of (48 + n mod 10)])"

declare showNat.simps [simp del]

definition fileSize :: nat where
  "fileSize = 5 * 1024 * 1024"

definition removeFile :: "string \<Rightarrow> (string \<times> bytes) list \<Rightarrow> (string \<times> bytes) list" where
  "removeFile n fs = filter (\<lambda>kv. fst kv \<noteq> n) fs"

text \<open>
  \<open>uploadAnimalImage\<close>, that is \<open>multer({ storage, limits }).single('image')\<close>, on a
  request with at most one file part, at time \<open>t\<close>. A part under another field name is
  refused before anything is stored. A part under \<open>image\<close> is streamed to
  \<open>uploads/animals/<t>-<originalname>\<close>; when it runs over the limit the middleware
  removes what it wrote and fails. At exactly the limit the outcome depends on the
  version of the multipart parser; the model accepts there, and no statement below
  depends on that case.
\<close>

definition uploadAnimalImage ::
  "nat \<Rightarrow> file_part option \<Rightarrow> world \<Rightarrow> (error + multer_file option) \<times> world" where
  "uploadAnimalImage t part w =
     (case part of
        None \<Rightarrow> (Inr None, w)
      | Some p \<Rightarrow>
          if fp_fieldname p \<noteq> ''image''
            then (Inl (LIMIT_UNEXPECTED_FILE (fp_fieldname p)), w)
          else
            (let filename = showNat t @ ''-'' @ fp_originalname p in
             if length (fp_data p) > fileSize
               then (Inl (LIMIT_FILE_SIZE ''image''),
                     w\<lparr>uploads := removeFile filename (uploads w)\<rparr>)
             else
               (Inr (Some \<lparr>mf_fieldname = ''image'', mf_originalname = fp_originalname p,
                           mf_filename = filename, mf_size = length (fp_data p)\<rparr>),
                w\<lparr>uploads := (filename, fp_data p) # uploads w\<rparr>)))"

text \<open>A request to \<open>POST /api/animal/category/:categoryId\<close>.\<close>

record animal_request =
  rq_categoryId :: string
  rq_name :: "string option"
  rq_file :: "file_part option"

text \<open>
  \<open>app.post('/api/animal/category/:categoryId', uploadAnimalImage, addAnimal)\<close>: an error
  of the middleware goes to the framework's default error handler, since the application
  installs none; the error carries no status, so the answer is a 500.
\<close>

definition postAnimal :: "nat \<Rightarrow> env \<Rightarrow> animal_request \<Rightarrow> world \<Rightarrow> response \<times> world" where
  "postAnimal t e rq w =
     (case uploadAnimalImage t (rq_file rq) w of
        (Inl err, w') \<Rightarrow> ((500, ErrorPage err), w')
      | (Inr file, w') \<Rightarrow> addAnimal e (Some (rq_categoryId rq)) (rq_name rq) file w')"

text \<open>\<open>app.use('/uploads/animals', express.static(uploadDir))\<close> on a GET of a path.\<close>

definition serveStatic :: "string \<Rightarrow> world \<Rightarrow> response" where
  "serveStatic path w =
     (let pre = ''/uploads/animals/'' in
      if take (length pre) path = pre then
        (case map_of (uploads w) (drop (length pre) path) of
           Some d \<Rightarrow> (200, FileContent d)
         | None \<Rightarrow> (404, NotFoundPage))
      else (404, NotFoundPage))"

section \<open>Sample requests and states\<close>

text \<open>Concrete inputs at which the statements below are instantiated.\<close>

definition id255 :: string where
  "id255 = ''0000000000000000000000ff''"

definition id7 :: string where
  "id7 = ''000000000000000000000007''"

definition world0 :: world where
  "world0 = \<lparr>connected = True, categories = [], animals = [], uploads = [], queries = []\<rparr>"

definition birds :: category where
  "birds = \<lparr>cat_id = 255, cat_name = ''Birds'', cat_createdAt = 5, cat_updatedAt = 5\<rparr>"

definition owl :: animal where
  "owl = \<lparr>ani_id = 7, ani_name = ''Owl'', ani_image = Some ''/uploads/animals/6-owl.png'',
          ani_category = Some 255, ani_createdAt = 6, ani_updatedAt = 6\<rparr>"

definition world1 :: world where
  "world1 = \<lparr>connected = True, categories = [birds], animals = [owl],
             uploads = [(''6-owl.png'', [1, 2])], queries = []\<rparr>"

definition env1 :: env where
  "env1 = \<lparr>now = 17, newId = 1\<rparr>"

definition env2 :: env where
  "env2 = \<lparr>now = 18, newId = 2\<rparr>"

definition iguanaFile :: multer_file where
  "iguanaFile = \<lparr>mf_fieldname = ''image'', mf_originalname = ''iguana.png'',
                 mf_filename = ''17-iguana.png'', mf_size = 3\<rparr>"

definition iguanaPart :: file_part where
  "iguanaPart = \<lparr>fp_fieldname = ''image'', fp_originalname = ''iguana.png'',
                 fp_data = [1, 2, 3]\<rparr>"

definition bigPart :: file_part where
  "bigPart = \<lparr>fp_fieldname = ''image'', fp_originalname = ''big.png'',
              fp_data = replicate 5242881 0\<rparr>"

definition bigRequest :: animal_request where
  "bigRequest = \<lparr>rq_categoryId = id255, rq_name = Some ''Iguana'', rq_file = Some bigPart\<rparr>"

definition namelessRequest :: animal_request where
  "namelessRequest = \<lparr>rq_categoryId = id7, rq_name = None, rq_file = Some iguanaPart\<rparr>"

definition strayRequest :: animal_request where
  "strayRequest =
     \<lparr>rq_categoryId = id7, rq_name = Some ''Iguana'', rq_file = Some iguanaPart\<rparr>"

definition reptiles :: category where
  "reptiles = \<lparr>cat_id = 1, cat_name = ''Reptiles'', cat_createdAt = 17, cat_updatedAt = 17\<rparr>"

definition iguana :: animal where
  "iguana = \<lparr>ani_id = 2, ani_name = ''Iguana'',
             ani_image = Some ''/uploads/animals/17-iguana.png'', ani_category = Some 1,
             ani_createdAt = 18, ani_updatedAt = 18\<rparr>"

definition world2 :: world where
  "world2 = world1\<lparr>categories := [birds, reptiles], queries := [CategorySave reptiles]\<rparr>"

definition world3 :: world where
  "world3 = world2\<lparr>animals := [owl, iguana],
     queries := [CategorySave reptiles, CategoryFindById (toHexString 1), AnimalSave iguana]\<rparr>"

section \<open>Identifiers: the text format and the cast agree\<close>

lemma hexval_hexchar: "d < 16 \<Longrightarrow> hexval (hexchar d) = Some d"
  by (auto simp: hexval_def hexchar_def Let_def)

lemma parseHex_append:
  "parseHex acc (xs @ ys) =
     (case parseHex acc xs of None \<Rightarrow> None | Some a \<Rightarrow> parseHex a ys)"
  by (induction xs arbitrary: acc) (auto split: option.splits)

lemma parseHex_hexDigits:
  "parseHex acc (hexDigits k n) = Some (acc * 16 ^ k + n mod 16 ^ k)"
proof (induction k arbitrary: n acc)
  case 0
  show ?case by simp
next
  case (Suc k)
  have "n mod (16 * 16 ^ k) = 16 * (n div 16 mod 16 ^ k) + n mod 16"
    by (simp add: mod_mult2_eq)
  then show ?case
    by (simp add: parseHex_append Suc hexval_hexchar algebra_simps)
qed

lemma length_hexDigits: "length (hexDigits k n) = k"
  by (induction k arbitrary: n) auto

text \<open>The identifier a response shows is accepted back and denotes the same document.\<close>

lemma cast_toHexString: "castObjectId (toHexString i) = Some i"
proof -
  have "unat i < 2 ^ 96"
    using unsigned_less [of i] by simp
  then have "unat i < 16 ^ 24"
    by simp
  then show ?thesis
    by (simp add: castObjectId_def toHexString_def length_hexDigits parseHex_hexDigits)
qed

lemma parseHex_None:
  "parseHex acc s \<noteq> None \<longleftrightarrow> list_all (\<lambda>c. hexval c \<noteq> None) s"
  by (induction s arbitrary: acc) (auto split: option.splits)

text \<open>The cast fails exactly on the strings \<open>isValid\<close> refuses.\<close>

lemma isValid_cast: "isValid s \<longleftrightarrow> castObjectId s \<noteq> None"
  using parseHex_None [of 0 s] by (auto simp: isValid_def castObjectId_def)

lemma isValid_toHexString: "isValid (toHexString i)"
  by (simp add: isValid_cast cast_toHexString)

lemma isValid_nonempty: "isValid s \<Longrightarrow> s \<noteq> []"
  by (auto simp: isValid_def)

lemma not_isValid_abc: "\<not> isValid ''abc''"
  by (simp add: isValid_def)

lemma isValid_id255: "isValid id255"
  by (simp add: id255_def isValid_def hexval_def)

lemma cast_id255: "castObjectId id255 = Some 255"
  by (simp add: id255_def castObjectId_def hexval_def)

lemma isValid_id7: "isValid id7"
  by (simp add: id7_def isValid_def hexval_def)

lemma cast_id7: "castObjectId id7 = Some 7"
  by (simp add: id7_def castObjectId_def hexval_def)

section \<open>Lists of documents\<close>

lemma find_None_list_all: "List.find P xs = None \<longleftrightarrow> list_all (\<lambda>x. \<not> P x) xs"
  by (induction xs) auto

lemma find_append_new:
  "List.find P xs = None \<Longrightarrow> P x \<Longrightarrow> List.find P (xs @ [x]) = Some x"
  by (induction xs) (auto split: if_splits)

lemma deleteFirst_absent: "List.find P xs = None \<Longrightarrow> deleteFirst P xs = xs"
  by (induction xs) (auto split: if_splits)

lemma map_of_removeFile: "map_of (removeFile k fs) k = None"
  by (induction fs) (auto simp: removeFile_def)

section \<open>Identifier validation in the controllers\<close>

text \<open>The three category controllers with an identifier in the path refuse a malformed
  one with a 400 and leave the state, the issued calls included, as it was.\<close>

lemma invalid_getCategoryById:
  "\<not> isValid s \<Longrightarrow>
   getCategoryById s w = ((400, Message ''Invalid category ID format''), w)"
  by (simp add: getCategoryById_def)

lemma invalid_updateCategory:
  "\<not> isValid s \<Longrightarrow>
   updateCategory e s n w = ((400, Message ''Invalid category ID format''), w)"
  by (simp add: updateCategory_def)

lemma invalid_deleteCategory:
  "\<not> isValid s \<Longrightarrow>
   deleteCategory s w = ((400, Message ''Invalid category ID format''), w)"
  by (simp add: deleteCategory_def)

text \<open>The three animal controllers do not test the identifier: a malformed one is handed
  to the model, whose cast fails, and the controller's \<open>catch\<close> answers 500.\<close>

lemma invalid_deleteAnimal:
  "\<not> isValid s \<Longrightarrow>
   deleteAnimal s w =
     ((500, MessageError ''Error deleting animal'' (CastError s)),
      issue (AnimalFindByIdAndDelete s) w)"
  by (simp add: deleteAnimal_def Animal_findByIdAndDelete_def isValid_cast)

lemma invalid_getAnimalsByCategoryId:
  "\<not> isValid s \<Longrightarrow>
   getAnimalsByCategoryId s w =
     ((500, MessageError ''Error fetching animals by category ID'' (CastError s)),
      issue (AnimalFindPopulate (Some (Str s))) w)"
  by (simp add: getAnimalsByCategoryId_def Animal_find_populate_def isValid_cast)

lemma invalid_addAnimal:
  "\<not> isValid s \<Longrightarrow> s \<noteq> [] \<Longrightarrow> n \<noteq> [] \<Longrightarrow>
   addAnimal e (Some s) (Some n) (Some f) w =
     ((500, MessageError ''Internal server error while adding animal.'' (CastError s)),
      issue (CategoryFindById s) w)"
  by (simp add: addAnimal_def imagePath_def Category_findById_def isValid_cast)

text \<open>
  C1. Claimed: every controller with an identifier in the path answers a malformed
  identifier with 400 before any call on the store. At the malformed identifier \<open>abc\<close>
  the controllers \<open>deleteAnimal\<close>, \<open>getAnimalsByCategoryId\<close> and \<open>addAnimal\<close> issue their
  call with it and answer 500, where \<open>getCategoryById\<close> answers 400 and issues nothing.
\<close>

theorem animal_controllers_query_with_malformed_id:
  "\<not> isValid ''abc'' \<and>
   getCategoryById ''abc'' world0 = ((400, Message ''Invalid category ID format''), world0) \<and>
   deleteAnimal ''abc'' world0 =
     ((500, MessageError ''Error deleting animal'' (CastError ''abc'')),
      world0\<lparr>queries := [AnimalFindByIdAndDelete ''abc'']\<rparr>) \<and>
   getAnimalsByCategoryId ''abc'' world0 =
     ((500, MessageError ''Error fetching animals by category ID'' (CastError ''abc'')),
      world0\<lparr>queries := [AnimalFindPopulate (Some (Str ''abc''))]\<rparr>) \<and>
   addAnimal env1 (Some ''abc'') (Some ''Iguana'') (Some iguanaFile) world0 =
     ((500, MessageError ''Internal server error while adding animal.'' (CastError ''abc'')),
      world0\<lparr>queries := [CategoryFindById ''abc'']\<rparr>)"
  by (simp add: not_isValid_abc invalid_getCategoryById invalid_deleteAnimal
      invalid_getAnimalsByCategoryId invalid_addAnimal issue_def world0_def)

section \<open>The controller \<open>addAnimal\<close>\<close>

text \<open>The three tests on the fields come first, in this order, and answer without
  touching the state.\<close>

lemma addAnimal_missing:
  "falsy categoryId \<or> falsy name \<or> file = None \<Longrightarrow>
   addAnimal e categoryId name file w =
     ((400, Message (if falsy categoryId then ''Missing Category Id''
                     else if falsy name then ''Missing Image required fields.''
                     else ''Missing required fields.'')), w)"
  by (auto simp: addAnimal_def falsy_def imagePath_def split: option.splits)

text \<open>With the fields present, a well-formed identifier of no category ends the request
  after the one lookup.\<close>

lemma addAnimal_unknown_category:
  assumes "connected w" and "isValid cid"
    and "list_all (\<lambda>c. Some (cat_id c) \<noteq> castObjectId cid) (categories w)"
    and "\<not> falsy name" and "file \<noteq> None"
  shows "addAnimal e (Some cid) name file w =
           ((404, Message ''Category not found''), issue (CategoryFindById cid) w)"
proof -
  from \<open>isValid cid\<close> obtain i where i: "castObjectId cid = Some i"
    by (auto simp: isValid_cast)
  have "List.find (\<lambda>c. cat_id c = i) (categories w) = None"
    using assms(3) by (simp add: find_None_list_all i)
  with assms i isValid_nonempty [OF \<open>isValid cid\<close>] show ?thesis
    by (auto simp: addAnimal_def imagePath_def Category_findById_def falsy_def
        split: option.splits)
qed

lemma addAnimal_not_ErrorPage: "snd (fst (addAnimal e c n f w)) \<noteq> ErrorPage err"
  by (auto simp: addAnimal_def Category_findById_def Animal_save_def Let_def
      split: option.splits sum.splits prod.splits if_splits)

lemma addAnimal_uploads: "uploads (snd (addAnimal e c n f w)) = uploads w"
  by (auto simp: addAnimal_def Category_findById_def Animal_save_def issue_def Let_def
      split: option.splits sum.splits prod.splits if_splits)

text \<open>An animal is stored only with the answer 201.\<close>

lemma addAnimal_persists_only_on_201:
  "fst (fst (addAnimal e c n f w)) \<noteq> 201 \<Longrightarrow> animals (snd (addAnimal e c n f w)) = animals w"
  by (auto simp: addAnimal_def Category_findById_def Animal_save_def issue_def Let_def
      split: option.splits sum.splits prod.splits if_splits)

text \<open>What the two creating controllers did when they answer 201.\<close>

lemma addCategory_created:
  assumes "addCategory e (Some n) w = ((201, CategoryDoc c), w1)"
  shows "connected w \<and>
         c = \<lparr>cat_id = newId e, cat_name = n, cat_createdAt = now e, cat_updatedAt = now e\<rparr> \<and>
         List.find (\<lambda>d. cat_id d = newId e) (categories w) = None \<and>
         connected w1 \<and> categories w1 = categories w @ [c] \<and> animals w1 = animals w"
  using assms
  by (auto simp: addCategory_def Category_save_def issue_def Let_def split: if_splits)

lemma addAnimal_created:
  assumes "addAnimal e (Some cid) (Some n) (Some f) w = ((201, AnimalAdded m a), w2)"
    and "castObjectId cid = Some i"
    and "List.find (\<lambda>d. cat_id d = i) (categories w) = Some c"
  shows "a = \<lparr>ani_id = newId e, ani_name = n,
              ani_image = Some (''/uploads/animals/'' @ mf_filename f),
              ani_category = Some (cat_id c), ani_createdAt = now e, ani_updatedAt = now e\<rparr> \<and>
         connected w2 \<and> categories w2 = categories w \<and> animals w2 = animals w @ [a]"
  using assms
  by (auto simp: addAnimal_def imagePath_def Category_findById_def Animal_save_def issue_def
      Let_def split: if_splits)

text \<open>They do answer 201 when the store is reachable and the generated identifier is
  new.\<close>

lemma addCategory_succeeds:
  assumes "connected w" and "n \<noteq> []"
    and "List.find (\<lambda>d. cat_id d = newId e) (categories w) = None"
  shows "fst (fst (addCategory e (Some n) w)) = 201"
  using assms by (simp add: addCategory_def Category_save_def Let_def)

lemma addAnimal_succeeds:
  assumes "connected w" and "castObjectId cid = Some i"
    and "List.find (\<lambda>d. cat_id d = i) (categories w) = Some c" and "n \<noteq> []"
    and "List.find (\<lambda>b. ani_id b = newId e) (animals w) = None"
  shows "fst (fst (addAnimal e (Some cid) (Some n) (Some f) w)) = 201"
proof -
  have "cid \<noteq> []"
    using assms(2) by (auto simp: castObjectId_def)
  with assms show ?thesis
    by (simp add: addAnimal_def imagePath_def Category_findById_def Animal_save_def issue_def
        Let_def)
qed

text \<open>
  C7. A call of \<open>addAnimal\<close> in which the category identifier, the name or the uploaded
  file is missing is answered with 400, and nothing is stored: the collection of
  animals, and the whole state, are as before.
\<close>

theorem addAnimal_missing_field_400:
  assumes "falsy categoryId \<or> falsy name \<or> file = None"
  shows "fst (fst (addAnimal e categoryId name file w)) = 400 \<and>
         animals (snd (addAnimal e categoryId name file w)) = animals w \<and>
         snd (addAnimal e categoryId name file w) = w"
  using assms by (simp add: addAnimal_missing)

theorem addAnimal_missing_field_400_witness:
  "(falsy None \<or> falsy (Some ''Iguana'') \<or> Some iguanaFile = None) \<and>
   fst (fst (addAnimal env1 None (Some ''Iguana'') (Some iguanaFile) world1)) = 400 \<and>
   animals (snd (addAnimal env1 None (Some ''Iguana'') (Some iguanaFile) world1)) = [owl] \<and>
   (falsy (Some id255) \<or> falsy (Some []) \<or> Some iguanaFile = None) \<and>
   fst (fst (addAnimal env1 (Some id255) (Some []) (Some iguanaFile) world1)) = 400 \<and>
   animals (snd (addAnimal env1 (Some id255) (Some []) (Some iguanaFile) world1)) = [owl] \<and>
   (falsy (Some id255) \<or> falsy (Some ''Iguana'') \<or> (None :: multer_file option) = None) \<and>
   fst (fst (addAnimal env1 (Some id255) (Some ''Iguana'') None world1)) = 400 \<and>
   animals (snd (addAnimal env1 (Some id255) (Some ''Iguana'') None world1)) = [owl]"
  using addAnimal_missing_field_400 [of None "Some ''Iguana''" "Some iguanaFile" env1 world1]
    addAnimal_missing_field_400 [of "Some id255" "Some []" "Some iguanaFile" env1 world1]
    addAnimal_missing_field_400 [of "Some id255" "Some ''Iguana''" None env1 world1]
  by (simp add: falsy_def world1_def)

text \<open>
  C10. The three refusals of \<open>addAnimal\<close> for a missing field are 400 responses with these
  texts: \<open>Missing Category Id\<close> when the category identifier is missing; otherwise
  \<open>Missing Image required fields.\<close> when the name is missing, although it is the name
  that is absent; otherwise \<open>Missing required fields.\<close> when the image is missing.
\<close>

theorem addAnimal_missing_field_messages:
  assumes "falsy categoryId \<or> falsy name \<or> file = None"
  shows "fst (addAnimal e categoryId name file w) =
           (400, Message (if falsy categoryId then ''Missing Category Id''
                          else if falsy name then ''Missing Image required fields.''
                          else ''Missing required fields.''))"
  using assms by (simp add: addAnimal_missing)

theorem addAnimal_missing_field_messages_witness:
  "(falsy None \<or> falsy (Some ''Iguana'') \<or> Some iguanaFile = None) \<and>
   fst (addAnimal env1 None (Some ''Iguana'') (Some iguanaFile) world0) =
     (400, Message ''Missing Category Id'') \<and>
   (falsy (Some id255) \<or> falsy None \<or> Some iguanaFile = None) \<and>
   fst (addAnimal env1 (Some id255) None (Some iguanaFile) world0) =
     (400, Message ''Missing Image required fields.'') \<and>
   (falsy (Some id255) \<or> falsy (Some ''Iguana'') \<or> (None :: multer_file option) = None) \<and>
   fst (addAnimal env1 (Some id255) (Some ''Iguana'') None world0) =
     (400, Message ''Missing required fields.'')"
  using addAnimal_missing_field_messages [of None "Some ''Iguana''" "Some iguanaFile" env1 world0]
    addAnimal_missing_field_messages [of "Some id255" None "Some iguanaFile" env1 world0]
    addAnimal_missing_field_messages [of "Some id255" "Some ''Iguana''" None env1 world0]
  by (simp add: falsy_def id255_def)

text \<open>
  C4, as claimed, fails: the identifier \<open>id255\<close> is well formed and names no category of
  the empty store, yet the call without a name is answered 400, not 404, because the
  fields are tested before the category is looked up.
\<close>

theorem unknown_category_without_name_answers_400:
  "isValid id255 \<and> categories world0 = [] \<and>
   fst (addAnimal env1 (Some id255) None (Some iguanaFile) world0) =
     (400, Message ''Missing Image required fields.'')"
  by (simp add: isValid_id255 isValid_nonempty addAnimal_missing falsy_def world0_def)

text \<open>
  C4, amended. A call of \<open>addAnimal\<close> that carries a name and an uploaded file, with a
  well-formed category identifier that names no category of a reachable store, is
  answered 404 and the collection of animals is unchanged.
\<close>

theorem addAnimal_unknown_category_404:
  assumes "connected w" and "isValid cid"
    and "list_all (\<lambda>c. Some (cat_id c) \<noteq> castObjectId cid) (categories w)"
    and "n \<noteq> []"
  shows "fst (addAnimal e (Some cid) (Some n) (Some f) w) =
           (404, Message ''Category not found'') \<and>
         animals (snd (addAnimal e (Some cid) (Some n) (Some f) w)) = animals w"
  using assms by (simp add: addAnimal_unknown_category falsy_def issue_def)

theorem addAnimal_unknown_category_404_witness:
  "connected world1 \<and> isValid id7 \<and>
   list_all (\<lambda>c. Some (cat_id c) \<noteq> castObjectId id7) (categories world1) \<and>
   ''Iguana'' \<noteq> [] \<and>
   fst (addAnimal env1 (Some id7) (Some ''Iguana'') (Some iguanaFile) world1) =
     (404, Message ''Category not found'') \<and>
   animals (snd (addAnimal env1 (Some id7) (Some ''Iguana'') (Some iguanaFile) world1)) = [owl]"
  using addAnimal_unknown_category_404 [of world1 id7 "''Iguana''" env1 iguanaFile]
  by (simp add: isValid_id7 cast_id7 world1_def birds_def)

text \<open>On the route, the same holds for a request the upload middleware hands on.\<close>

lemma postAnimal_missing_field:
  assumes "uploadAnimalImage t (rq_file rq) w = (Inr file, w1)"
    and "rq_categoryId rq = [] \<or> falsy (rq_name rq) \<or> file = None"
  shows "fst (fst (postAnimal t e rq w)) = 400 \<and>
         animals (snd (postAnimal t e rq w)) = animals w"
proof -
  have "animals w1 = animals w"
    using assms(1) by (auto simp: uploadAnimalImage_def Let_def split: option.splits if_splits)
  moreover have "falsy (Some (rq_categoryId rq)) \<or> falsy (rq_name rq) \<or> file = None"
    using assms(2) by (simp add: falsy_def)
  ultimately show ?thesis
    using assms(1) by (simp add: postAnimal_def addAnimal_missing)
qed

section \<open>The upload middleware and static files\<close>

lemma uploadAnimalImage_stored:
  assumes "uploadAnimalImage t (Some p) w = (Inr (Some f), w1)"
  shows "mf_filename f = showNat t @ ''-'' @ fp_originalname p \<and>
         w1 = w\<lparr>uploads := (mf_filename f, fp_data p) # uploads w\<rparr>"
  using assms by (auto simp: uploadAnimalImage_def Let_def split: if_splits)

lemma serveStatic_stored:
  "map_of (uploads w) n = Some d \<Longrightarrow>
   serveStatic (''/uploads/animals/'' @ n) w = (200, FileContent d)"
  by (simp add: serveStatic_def)

text \<open>
  C9. When the upload middleware has stored the file of a create-animal request and
  handed the request on, the file is in \<open>uploads/animals\<close> before the controller runs and
  is still served under \<open>/uploads/animals/\<close> after it, whatever the controller answers:
  in particular after the 400 for a missing name and after the 404 for an unknown
  category.
\<close>

theorem upload_kept_when_handler_fails:
  assumes "rq_file rq = Some p"
    and "uploadAnimalImage t (Some p) w = (Inr (Some f), w1)"
  shows "(falsy (rq_name rq) \<longrightarrow> fst (fst (postAnimal t e rq w)) = 400) \<and>
         (\<not> falsy (rq_name rq) \<and> connected w \<and> isValid (rq_categoryId rq) \<and>
          list_all (\<lambda>c. Some (cat_id c) \<noteq> castObjectId (rq_categoryId rq)) (categories w)
            \<longrightarrow> fst (fst (postAnimal t e rq w)) = 404) \<and>
         map_of (uploads w1) (mf_filename f) = Some (fp_data p) \<and>
         serveStatic (''/uploads/animals/'' @ mf_filename f) (snd (postAnimal t e rq w)) =
           (200, FileContent (fp_data p))"
proof -
  note S = uploadAnimalImage_stored [OF assms(2)]
  have r: "postAnimal t e rq w = addAnimal e (Some (rq_categoryId rq)) (rq_name rq) (Some f) w1"
    using assms by (simp add: postAnimal_def)
  have w1: "map_of (uploads w1) (mf_filename f) = Some (fp_data p)"
    "connected w1 = connected w" "categories w1 = categories w"
    by (subst S [THEN conjunct2], simp)+
  have "map_of (uploads (snd (postAnimal t e rq w))) (mf_filename f) = Some (fp_data p)"
    by (simp add: r addAnimal_uploads w1)
  then have kept:
    "serveStatic (''/uploads/animals/'' @ mf_filename f) (snd (postAnimal t e rq w)) =
       (200, FileContent (fp_data p))"
    by (rule serveStatic_stored)
  have a: "falsy (rq_name rq) \<Longrightarrow> fst (fst (postAnimal t e rq w)) = 400"
    by (simp add: r addAnimal_missing)
  have b: "fst (fst (postAnimal t e rq w)) = 404"
    if "\<not> falsy (rq_name rq)" "connected w" "isValid (rq_categoryId rq)"
      "list_all (\<lambda>c. Some (cat_id c) \<noteq> castObjectId (rq_categoryId rq)) (categories w)"
    using that by (simp add: r addAnimal_unknown_category w1)
  from kept a b w1(1) show ?thesis
    by simp
qed

lemma iguanaPart_stored:
  "uploadAnimalImage 17 (Some iguanaPart) world1 =
     (Inr (Some \<lparr>mf_fieldname = ''image'', mf_originalname = ''iguana.png'',
                 mf_filename = showNat 17 @ ''-iguana.png'', mf_size = 3\<rparr>),
      world1\<lparr>uploads := (showNat 17 @ ''-iguana.png'', [1, 2, 3]) # uploads world1\<rparr>)"
  by (simp add: uploadAnimalImage_def iguanaPart_def fileSize_def Let_def)

theorem upload_kept_when_handler_fails_witness:
  "rq_file namelessRequest = Some iguanaPart \<and> rq_file strayRequest = Some iguanaPart \<and>
   uploadAnimalImage 17 (Some iguanaPart) world1 =
     (Inr (Some \<lparr>mf_fieldname = ''image'', mf_originalname = ''iguana.png'',
                 mf_filename = showNat 17 @ ''-iguana.png'', mf_size = 3\<rparr>),
      world1\<lparr>uploads := (showNat 17 @ ''-iguana.png'', [1, 2, 3]) # uploads world1\<rparr>) \<and>
   falsy (rq_name namelessRequest) \<and>
   fst (fst (postAnimal 17 env1 namelessRequest world1)) = 400 \<and>
   serveStatic (''/uploads/animals/'' @ showNat 17 @ ''-iguana.png'')
     (snd (postAnimal 17 env1 namelessRequest world1)) = (200, FileContent [1, 2, 3]) \<and>
   \<not> falsy (rq_name strayRequest) \<and> connected world1 \<and> isValid (rq_categoryId strayRequest) \<and>
   list_all (\<lambda>c. Some (cat_id c) \<noteq> castObjectId (rq_categoryId strayRequest))
     (categories world1) \<and>
   fst (fst (postAnimal 17 env1 strayRequest world1)) = 404 \<and>
   serveStatic (''/uploads/animals/'' @ showNat 17 @ ''-iguana.png'')
     (snd (postAnimal 17 env1 strayRequest world1)) = (200, FileContent [1, 2, 3])"
proof -
  have n: "rq_file namelessRequest = Some iguanaPart" "falsy (rq_name namelessRequest)"
    by (simp_all add: namelessRequest_def falsy_def)
  have s: "rq_file strayRequest = Some iguanaPart" "\<not> falsy (rq_name strayRequest)"
    "isValid (rq_categoryId strayRequest)"
    "list_all (\<lambda>c. Some (cat_id c) \<noteq> castObjectId (rq_categoryId strayRequest))
       (categories world1)"
    by (simp_all add: strayRequest_def falsy_def isValid_id7 cast_id7 world1_def birds_def)
  have c: "connected world1"
    by (simp add: world1_def)
  have d: "fp_data iguanaPart = [1, 2, 3]"
    by (simp add: iguanaPart_def)
  show ?thesis
    using n s c iguanaPart_stored
      upload_kept_when_handler_fails [OF n(1) iguanaPart_stored, of env1]
      upload_kept_when_handler_fails [OF s(1) iguanaPart_stored, of env1]
    by (simp add: d)
qed


text \<open>
  C2, as claimed, fails in its status: a create-animal request whose file has
  5242881 bytes, one more than 5 MiB, is answered 500 by the default error handler.
\<close>

theorem oversized_upload_answers_500:
  "5 * 1024 * 1024 < length (fp_data bigPart) \<and>
   postAnimal 17 env1 bigRequest world0 =
     ((500, ErrorPage (LIMIT_FILE_SIZE ''image'')), world0)"
  by (simp add: postAnimal_def uploadAnimalImage_def bigRequest_def bigPart_def fileSize_def
      world0_def removeFile_def)

text \<open>
  C2, amended. A create-animal request whose uploaded file exceeds 5 MiB is refused by
  the upload middleware before the controller runs: the answer is the error page of the
  default error handler with status 500, which is no answer of \<open>addAnimal\<close>; no animal or
  category is touched, no call is issued to the store, and the file of an \<open>image\<close> part is
  not left in the upload directory.
\<close>

theorem oversized_upload_rejected_before_handler:
  assumes "rq_file rq = Some p" and "5 * 1024 * 1024 < length (fp_data p)"
  shows "fst (fst (postAnimal t e rq w)) = 500 \<and>
         snd (fst (postAnimal t e rq w)) =
           ErrorPage (if fp_fieldname p = ''image'' then LIMIT_FILE_SIZE ''image''
                      else LIMIT_UNEXPECTED_FILE (fp_fieldname p)) \<and>
         fst (addAnimal e' c n f w') \<noteq> fst (postAnimal t e rq w) \<and>
         animals (snd (postAnimal t e rq w)) = animals w \<and>
         categories (snd (postAnimal t e rq w)) = categories w \<and>
         queries (snd (postAnimal t e rq w)) = queries w \<and>
         map_of (uploads (snd (postAnimal t e rq w))) (showNat t @ ''-'' @ fp_originalname p) =
           (if fp_fieldname p = ''image'' then None
            else map_of (uploads w) (showNat t @ ''-'' @ fp_originalname p))"
proof -
  have r: "postAnimal t e rq w =
      (if fp_fieldname p = ''image''
       then ((500, ErrorPage (LIMIT_FILE_SIZE ''image'')),
             w\<lparr>uploads := removeFile (showNat t @ ''-'' @ fp_originalname p) (uploads w)\<rparr>)
       else ((500, ErrorPage (LIMIT_UNEXPECTED_FILE (fp_fieldname p))), w))"
    using assms by (simp add: postAnimal_def uploadAnimalImage_def fileSize_def)
  have "fst (addAnimal e' c n f w') \<noteq> fst (postAnimal t e rq w)"
    using addAnimal_not_ErrorPage [of e' c n f w'] r
    by (cases "fst (addAnimal e' c n f w')") (auto split: if_splits)
  then show ?thesis
    by (simp add: r map_of_removeFile)
qed

theorem oversized_upload_rejected_before_handler_witness:
  "rq_file bigRequest = Some bigPart \<and> 5 * 1024 * 1024 < length (fp_data bigPart) \<and>
   fst (fst (postAnimal 17 env1 bigRequest world1)) = 500 \<and>
   snd (fst (postAnimal 17 env1 bigRequest world1)) = ErrorPage (LIMIT_FILE_SIZE ''image'') \<and>
   fst (addAnimal env1 (Some id255) (Some ''Iguana'') None world1)
     \<noteq> fst (postAnimal 17 env1 bigRequest world1) \<and>
   animals (snd (postAnimal 17 env1 bigRequest world1)) = [owl] \<and>
   queries (snd (postAnimal 17 env1 bigRequest world1)) = [] \<and>
   map_of (uploads (snd (postAnimal 17 env1 bigRequest world1)))
     (showNat 17 @ ''-'' @ fp_originalname bigPart) = None"
proof -
  have h1: "rq_file bigRequest = Some bigPart"
    by (simp add: bigRequest_def)
  have h2: "5 * 1024 * 1024 < length (fp_data bigPart)"
    by (simp add: bigPart_def)
  have f: "fp_fieldname bigPart = ''image''"
    by (simp add: bigPart_def)
  have w: "animals world1 = [owl]" "queries world1 = []"
    by (simp_all add: world1_def)
  show ?thesis
    using h1 h2 oversized_upload_rejected_before_handler
      [OF h1 h2, where t = 17 and e = env1 and w = world1
         and e' = env1 and c = "Some id255" and n = "Some ''Iguana''"
         and f = None and w' = world1]
    by (simp add: f w)
qed

section \<open>The category controllers\<close>

text \<open>
  C3. With the store reachable, \<open>getCategories\<close> answers 404 when there is no category,
  never 200 with an empty list, and 200 with all categories when there is at least one.
\<close>

theorem getCategories_404_when_empty:
  "connected w \<Longrightarrow>
   fst (getCategories w) =
     (if categories w = [] then (404, Message ''No categories found'')
      else (200, Categories (categories w)))"
  by (simp add: getCategories_def Category_find_def)

theorem getCategories_404_when_empty_witness:
  "connected world0 \<and> categories world0 = [] \<and>
   fst (getCategories world0) = (404, Message ''No categories found'') \<and>
   connected world1 \<and> categories world1 = [birds] \<and>
   fst (getCategories world1) = (200, Categories [birds])"
  using getCategories_404_when_empty [of world0] getCategories_404_when_empty [of world1]
  by (simp add: world0_def world1_def)

text \<open>When the store cannot be reached the controller's \<open>catch\<close> answers 500.\<close>

lemma getCategories_unreachable:
  "\<not> connected w \<Longrightarrow>
   fst (getCategories w) = (500, MessageError ''Error fetching categories'' StoreUnavailable)"
  by (simp add: getCategories_def Category_find_def)

text \<open>
  C8. \<open>deleteCategory\<close> leaves every animal as it was, whatever it answers: the animals
  that refer to the deleted category keep their reference.
\<close>

theorem deleteCategory_keeps_animals:
  "animals (snd (deleteCategory ident w)) = animals w"
  by (simp add: deleteCategory_def Category_findByIdAndDelete_def issue_def Let_def
      split: option.splits)

text \<open>In the sample state the category \<open>birds\<close> is deleted and \<open>owl\<close>, which refers to
  it, stays.\<close>

lemma deleteCategory_orphans_owl:
  "deleteCategory id255 world1 =
     ((200, Message ''Category deleted successfully''),
      world1\<lparr>categories := [], queries := [CategoryFindByIdAndDelete id255]\<rparr>) \<and>
   animals world1 = [owl] \<and> ani_category owl = Some (cat_id birds)"
  by (simp add: deleteCategory_def Category_findByIdAndDelete_def issue_def isValid_id255
      cast_id255 world1_def birds_def owl_def)

section \<open>The controller \<open>deleteAnimal\<close>\<close>

text \<open>
  C6, as claimed, fails: not every delete-animal request is answered 200. The
  identifier \<open>not-an-id\<close> makes the model's cast fail and the controller answers 500.
\<close>

theorem deleteAnimal_malformed_id_answers_500:
  "fst (deleteAnimal ''not-an-id'' world1) =
     (500, MessageError ''Error deleting animal'' (CastError ''not-an-id''))"
  by (simp add: deleteAnimal_def Animal_findByIdAndDelete_def castObjectId_def)

text \<open>
  C6, amended. For a delete-animal request with a well-formed identifier and a reachable
  store, \<open>deleteAnimal\<close> makes no test of existence: it answers 200 with the confirmation
  whether or not an animal has that identifier, and removes the animal if there is one.
\<close>

theorem deleteAnimal_no_existence_check:
  assumes "connected w" and "isValid s"
  shows "fst (deleteAnimal s w) = (200, Message ''Animal deleted successfully'') \<and>
         animals (snd (deleteAnimal s w)) =
           deleteFirst (\<lambda>a. Some (ani_id a) = castObjectId s) (animals w)"
proof -
  from \<open>isValid s\<close> obtain i where i: "castObjectId s = Some i"
    by (auto simp: isValid_cast)
  show ?thesis
    using assms(1) i
    by (auto simp: deleteAnimal_def Animal_findByIdAndDelete_def issue_def
        deleteFirst_absent Let_def split: option.splits)
qed

theorem deleteAnimal_no_existence_check_witness:
  "connected world1 \<and> isValid id7 \<and> isValid id255 \<and>
   fst (deleteAnimal id7 world1) = (200, Message ''Animal deleted successfully'') \<and>
   animals (snd (deleteAnimal id7 world1)) = [] \<and>
   fst (deleteAnimal id255 world1) = (200, Message ''Animal deleted successfully'') \<and>
   animals (snd (deleteAnimal id255 world1)) = [owl]"
  using deleteAnimal_no_existence_check [of world1 id7]
    deleteAnimal_no_existence_check [of world1 id255]
  by (simp add: isValid_id7 isValid_id255 cast_id7 cast_id255 world1_def owl_def)

section \<open>Round trip\<close>

text \<open>
  C5. Start from a state in which no animal refers to the identifier of the category to
  come. Let \<open>addCategory\<close> with the name \<open>Reptiles\<close> answer 201 with the category \<open>c\<close>, and
  let \<open>addAnimal\<close> with the name \<open>Iguana\<close>, the identifier of \<open>c\<close> as the response shows it
  and an uploaded file answer 201 with the animal \<open>a\<close>. Then \<open>getAnimalsByCategoryId\<close> with
  that identifier answers 200 with exactly one animal, \<open>a\<close>, named \<open>Iguana\<close>, whose
  category is the whole document \<open>c\<close>.
\<close>

theorem round_trip:
  assumes "list_all (\<lambda>a. ani_category a \<noteq> Some (newId e1)) (animals w)"
    and "addCategory e1 (Some ''Reptiles'') w = ((201, CategoryDoc c), w1)"
    and "addAnimal e2 (Some (toHexString (cat_id c))) (Some ''Iguana'') (Some f) w1 =
           ((201, AnimalAdded m a), w2)"
  shows "fst (getAnimalsByCategoryId (toHexString (cat_id c)) w2) =
           (200, Animals
              [\<lparr>pop_id = ani_id a, pop_name = ''Iguana'', pop_image = ani_image a,
                pop_category = Some c,
                pop_createdAt = ani_createdAt a, pop_updatedAt = ani_updatedAt a\<rparr>])"
proof -
  note C = addCategory_created [OF assms(2)]
  from C have cid: "cat_id c = newId e1"
    by simp
  have fc: "List.find (\<lambda>d. cat_id d = cat_id c) (categories w1) = Some c"
    using C by (simp add: find_append_new)
  note A = addAnimal_created [OF assms(3) cast_toHexString fc]
  have flt: "filter (\<lambda>b. ani_category b = Some (cat_id c)) (animals w) = []"
    using assms(1) by (simp add: cid filter_empty_conv list_all_iff)
  have a: "ani_category a = Some (cat_id c)" "ani_name a = ''Iguana''"
    using A by simp_all
  have "filter (\<lambda>b. ani_category b = Some (cat_id c)) (animals w2) = [a]"
    using A C flt a by simp
  moreover have "populate (categories w2) a =
      \<lparr>pop_id = ani_id a, pop_name = ''Iguana'', pop_image = ani_image a,
       pop_category = Some c,
       pop_createdAt = ani_createdAt a, pop_updatedAt = ani_updatedAt a\<rparr>"
    using A fc a by (simp add: populate_def)
  ultimately show ?thesis
    using A by (simp add: getAnimalsByCategoryId_def Animal_find_populate_def cast_toHexString)
qed

lemma sample_addCategory:
  "addCategory env1 (Some ''Reptiles'') world1 = ((201, CategoryDoc reptiles), world2)"
  by (simp add: addCategory_def Category_save_def issue_def env1_def world1_def world2_def
      reptiles_def birds_def)

lemma sample_addAnimal:
  "addAnimal env2 (Some (toHexString (cat_id reptiles))) (Some ''Iguana'') (Some iguanaFile)
     world2 =
     ((201, AnimalAdded ''Animal added successfully.'' iguana), world3)"
  using isValid_nonempty [OF isValid_toHexString [of 1]]
  by (simp add: addAnimal_def imagePath_def Category_findById_def Animal_save_def issue_def
      cast_toHexString env2_def world1_def world2_def world3_def reptiles_def birds_def
      iguana_def iguanaFile_def owl_def)

theorem round_trip_witness:
  "list_all (\<lambda>a. ani_category a \<noteq> Some (newId env1)) (animals world1) \<and>
   addCategory env1 (Some ''Reptiles'') world1 = ((201, CategoryDoc reptiles), world2) \<and>
   addAnimal env2 (Some (toHexString (cat_id reptiles))) (Some ''Iguana'') (Some iguanaFile)
     world2 =
     ((201, AnimalAdded ''Animal added successfully.'' iguana), world3) \<and>
   fst (getAnimalsByCategoryId (toHexString (cat_id reptiles)) world3) =
     (200, Animals
        [\<lparr>pop_id = 2, pop_name = ''Iguana'',
          pop_image = Some ''/uploads/animals/17-iguana.png'',
          pop_category = Some reptiles, pop_createdAt = 18, pop_updatedAt = 18\<rparr>])"
proof -
  have h: "list_all (\<lambda>a. ani_category a \<noteq> Some (newId env1)) (animals world1)"
    by (simp add: world1_def owl_def env1_def)
  show ?thesis
    using h sample_addCategory sample_addAnimal
      round_trip [OF h sample_addCategory sample_addAnimal]
    by (simp add: iguana_def)
qed

end
